theory Spec2Isabelle
  imports Complex_Main
begin

section \<open>Data model (src/lib/types.d.ts)\<close>

text \<open>
  JavaScript numbers that hold millisecond timestamps, durations and speaker indices are
  modelled as \<open>int\<close>: the values are finite whole numbers (no NaN, no fractions).
  Numbers that are genuinely fractional (confidence, sentiment scores, the participation
  percentage) are modelled as \<open>rat\<close>, with exact arithmetic in place of floating
  point; no property below depends on their values.
  Strings are \<open>string\<close>; a character stands for the UTF-16 code unit with the same
  number, so the model covers texts whose code units are below 256.
  Record fields keep the source's names except where two interfaces share a field name
  or the name is reserved; those get a short prefix.
\<close>

record WordSegment =
  word :: string
  wordStartTime :: int
  wordEndTime :: int
  wordConfidence :: rat
  wordSpeaker :: "int option"

record TranscriptSegment =
  speaker :: string
  speakerIndex :: int
  segText :: string
  startTime :: int
  endTime :: int
  confidence :: rat
  words :: "WordSegment list option"

section \<open>Segment reconciliation (src/app/page.tsx, handleTranscriptUpdate)\<close>

text \<open>
  The predicate of \<open>prev.findIndex\<close>:
  \<open>s.speakerIndex === segment.speakerIndex && Math.abs(s.startTime - segment.startTime) < 1000\<close>.
\<close>

definition sameSlot :: "TranscriptSegment \<Rightarrow> TranscriptSegment \<Rightarrow> bool" where
  "sameSlot segment s =
     (speakerIndex s = speakerIndex segment \<and> \<bar>startTime s - startTime segment\<bar> < 1000)"

text \<open>
  \<open>Array.prototype.findIndex\<close>: the index of the first element, from index 0 upwards,
  that satisfies the predicate; \<open>None\<close> stands for the result \<open>-1\<close>.
\<close>

fun findIndex :: "('a \<Rightarrow> bool) \<Rightarrow> 'a list \<Rightarrow> nat option" where
  "findIndex P [] = None"
| "findIndex P (x # xs) =
     (if P x then Some 0
      else (case findIndex P xs of None \<Rightarrow> None | Some i \<Rightarrow> Some (Suc i)))"

text \<open>
  The state updater passed to \<open>setTranscript\<close>: replace the found entry in a copy of the
  array, or append.
\<close>

definition reconcile :: "TranscriptSegment list \<Rightarrow> TranscriptSegment \<Rightarrow> TranscriptSegment list" where
  "reconcile prev segment =
     (case findIndex (sameSlot segment) prev of
        Some existingIndex \<Rightarrow> prev[existingIndex := segment]
      | None \<Rightarrow> prev @ [segment])"


section \<open>Session analytics (src/lib/analytics.ts)\<close>

datatype Overall = Positive | Neutral | Negative

record Emotions =
  joy :: rat
  sadness :: rat
  anger :: rat
  fear :: rat

record SentimentScore =
  overall :: Overall
  score :: rat
  emotions :: Emotions

record ParticipantData =
  userId :: string
  userName :: string
  joinTimestamp :: int
  leaveTimestamp :: "int option"
  transcript :: "TranscriptSegment list"
  totalTimeAttended :: int
  totalTimeSpoken :: int
  sentiment :: SentimentScore

text \<open>
  \<open>MeetingSession.participants\<close> is filled by \<open>Array.from(this.participants.values())\<close>:
  the array holds references to the very objects stored in the service's map, so later
  writes to a participant are visible through the session. The model keeps the references
  as the participants' keys (\<open>sessionParticipants\<close>) and reads them through the map.
\<close>

record MeetingSession =
  sessionId :: string
  url :: string
  sessionStartTime :: int
  sessionEndTime :: "int option"
  sessionParticipants :: "string list"
  totalTranscript :: "TranscriptSegment list"

text \<open>
  A JavaScript \<open>Map\<close> iterates in insertion order, and \<open>set\<close> on a present key keeps
  the key's position: the participants map is an association list with \<open>mapSet\<close>.
  The speaker mapping is never iterated, so it is a partial function.
\<close>

record AnalyticsService =
  participants :: "(string \<times> ParticipantData) list"
  currentSession :: "MeetingSession option"
  speakerMapping :: "int \<rightharpoonup> string"

fun mapSet :: "'k \<Rightarrow> 'v \<Rightarrow> ('k \<times> 'v) list \<Rightarrow> ('k \<times> 'v) list" where
  "mapSet k v [] = [(k, v)]"
| "mapSet k v (e # es) = (if fst e = k then (k, v) # es else e # mapSet k v es)"

definition mapGet :: "('k \<times> 'v) list \<Rightarrow> 'k \<Rightarrow> 'v option" where
  "mapGet m k = map_of m k"

definition mapHas :: "('k \<times> 'v) list \<Rightarrow> 'k \<Rightarrow> bool" where
  "mapHas m k = (case map_of m k of None \<Rightarrow> False | Some _ \<Rightarrow> True)"

definition mapValues :: "('k \<times> 'v) list \<Rightarrow> 'v list" where
  "mapValues m = map snd m"

text \<open>The state of \<open>new AnalyticsService()\<close>, also the state after \<open>reset()\<close>.\<close>

definition newAnalyticsService :: AnalyticsService where
  "newAnalyticsService =
     \<lparr>participants = [], currentSession = None, speakerMapping = Map.empty\<rparr>"

definition reset :: "AnalyticsService \<Rightarrow> AnalyticsService" where
  "reset s = s\<lparr>participants := [], speakerMapping := Map.empty, currentSession := None\<rparr>"

text \<open>Every function that reads \<open>Date.now()\<close> takes the clock value as \<open>now\<close>.\<close>

definition startSession :: "int \<Rightarrow> string \<Rightarrow> string \<Rightarrow> AnalyticsService \<Rightarrow> AnalyticsService" where
  "startSession now sid meetingUrl s =
     s\<lparr>currentSession := Some
         \<lparr>sessionId = sid, url = meetingUrl, sessionStartTime = now, sessionEndTime = None,
          sessionParticipants = [], totalTranscript = []\<rparr>\<rparr>"

text \<open>
  \<open>!participant.leaveTimestamp\<close> holds for \<open>null\<close> and for the number 0.
\<close>

definition truthyTime :: "int option \<Rightarrow> bool" where
  "truthyTime t = (case t of None \<Rightarrow> False | Some v \<Rightarrow> v \<noteq> 0)"

definition closeParticipant :: "int \<Rightarrow> ParticipantData \<Rightarrow> ParticipantData" where
  "closeParticipant endT participant =
     (if \<not> truthyTime (leaveTimestamp participant)
      then participant\<lparr>leaveTimestamp := Some endT,
                       totalTimeAttended := endT - joinTimestamp participant\<rparr>
      else participant)"

text \<open>
  \<open>endSession\<close> returns the session with the new service state. The \<open>forEach\<close> writes to
  the participant objects, which the map shares with the session's array.
\<close>

definition endSession :: "int \<Rightarrow> AnalyticsService \<Rightarrow> AnalyticsService \<times> MeetingSession option" where
  "endSession now s =
     (case currentSession s of
        None \<Rightarrow> (s, None)
      | Some cs \<Rightarrow>
          (let cs' = cs\<lparr>sessionEndTime := Some now,
                        sessionParticipants := map fst (participants s)\<rparr>;
               ps' = map (\<lambda>(k, p). (k, closeParticipant now p)) (participants s)
           in (s\<lparr>participants := ps', currentSession := Some cs'\<rparr>, Some cs')))"

text \<open>Reading the participant objects a session's array refers to.\<close>

definition participantsOf :: "AnalyticsService \<Rightarrow> MeetingSession \<Rightarrow> ParticipantData list" where
  "participantsOf s cs = List.map_filter (mapGet (participants s)) (sessionParticipants cs)"

definition neutralSentiment :: SentimentScore where
  "neutralSentiment =
     \<lparr>overall = Neutral, score = 0,
      emotions = \<lparr>joy = 0, sadness = 0, anger = 0, fear = 0\<rparr>\<rparr>"

definition addParticipant ::
  "int \<Rightarrow> string \<Rightarrow> string \<Rightarrow> int option \<Rightarrow> AnalyticsService \<Rightarrow> AnalyticsService" where
  "addParticipant now uid uname spk s =
     (if mapHas (participants s) uid then s
      else
        (let participant =
               \<lparr>userId = uid, userName = uname, joinTimestamp = now, leaveTimestamp = None,
                transcript = [], totalTimeAttended = 0, totalTimeSpoken = 0,
                sentiment = neutralSentiment\<rparr>;
             s1 = s\<lparr>participants := mapSet uid participant (participants s)\<rparr>
         in (case spk of
               None \<Rightarrow> s1
             | Some i \<Rightarrow> s1\<lparr>speakerMapping := (speakerMapping s1)(i \<mapsto> uid)\<rparr>)))"

definition mapSpeakerToParticipant :: "int \<Rightarrow> string \<Rightarrow> AnalyticsService \<Rightarrow> AnalyticsService" where
  "mapSpeakerToParticipant i uid s = s\<lparr>speakerMapping := (speakerMapping s)(i \<mapsto> uid)\<rparr>"

text \<open>The decimal text of a whole number, as a template literal renders it.\<close>

fun showNat :: "nat \<Rightarrow> string" where
  "showNat n =
     (if n < 10 then [''0123456789'' ! n]
      else showNat (n div 10) @ [''0123456789'' ! (n mod 10)])"

definition showInt :: "int \<Rightarrow> string" where
  "showInt i = (if i < 0 then CHR ''-'' # showNat (nat (- i)) else showNat (nat i))"

definition unknownId :: "int \<Rightarrow> string" where
  "unknownId i = ''unknown_'' @ showInt i"

text \<open>
  \<open>this.speakerMapping.get(i) || `unknown_${i}`\<close>: a missing entry and the empty string
  both fall through to the placeholder.
\<close>

definition resolveUserId :: "AnalyticsService \<Rightarrow> int \<Rightarrow> string" where
  "resolveUserId s i =
     (case speakerMapping s i of
        None \<Rightarrow> unknownId i
      | Some u \<Rightarrow> (if u = [] then unknownId i else u))"

definition duration :: "TranscriptSegment \<Rightarrow> int" where
  "duration segment = endTime segment - startTime segment"

definition addTranscriptSegment ::
  "int \<Rightarrow> TranscriptSegment \<Rightarrow> AnalyticsService \<Rightarrow> AnalyticsService" where
  "addTranscriptSegment now segment s =
     (let uid = resolveUserId s (speakerIndex segment);
          s1 = (if \<not> mapHas (participants s) uid
                then addParticipant now uid (speaker segment) (Some (speakerIndex segment)) s
                else s);
          s2 = (case mapGet (participants s1) uid of
                  None \<Rightarrow> s1
                | Some participant \<Rightarrow>
                    s1\<lparr>participants :=
                         mapSet uid
                           (participant\<lparr>transcript := transcript participant @ [segment],
                                        totalTimeSpoken :=
                                          totalTimeSpoken participant
                                            + (endTime segment - startTime segment)\<rparr>)
                           (participants s1)\<rparr>)
      in (case currentSession s2 of
            None \<Rightarrow> s2
          | Some cs \<Rightarrow>
              s2\<lparr>currentSession := Some (cs\<lparr>totalTranscript := totalTranscript cs @ [segment]\<rparr>)\<rparr>))"


definition markParticipantLeft :: "int \<Rightarrow> string \<Rightarrow> AnalyticsService \<Rightarrow> AnalyticsService" where
  "markParticipantLeft now uid s =
     (case mapGet (participants s) uid of
        None \<Rightarrow> s
      | Some participant \<Rightarrow>
          (if \<not> truthyTime (leaveTimestamp participant)
           then s\<lparr>participants :=
                    mapSet uid
                      (participant\<lparr>leaveTimestamp := Some now,
                                   totalTimeAttended := now - joinTimestamp participant\<rparr>)
                      (participants s)\<rparr>
           else s))"

definition getParticipantStats :: "AnalyticsService \<Rightarrow> string \<Rightarrow> ParticipantData option" where
  "getParticipantStats s uid = mapGet (participants s) uid"

definition getAllParticipants :: "AnalyticsService \<Rightarrow> ParticipantData list" where
  "getAllParticipants s = mapValues (participants s)"


subsection \<open>Text helpers\<close>

text \<open>
  The characters the regular expression class \<open>\s\<close> and \<open>String.prototype.trim\<close> treat
  as white space, among the code units below 256: tab, line feed, vertical tab, form
  feed, carriage return, space and no-break space.
\<close>

definition isWhitespace :: "char \<Rightarrow> bool" where
  "isWhitespace c =
     (c = CHR 0x09 \<or> c = CHR 0x0A \<or> c = CHR 0x0B \<or> c = CHR 0x0C \<or> c = CHR 0x0D
      \<or> c = CHR '' '' \<or> c = CHR 0xA0)"

text \<open>
  \<open>text.split(/\s+/)\<close>: the pieces between maximal runs of white space. A run at either
  end leaves an empty piece there, and the empty text gives one empty piece.
  \<open>inRun\<close> says that the previous character belonged to a separator run.
\<close>

fun splitRuns :: "bool \<Rightarrow> string \<Rightarrow> string \<Rightarrow> string list" where
  "splitRuns inRun cur [] = [cur]"
| "splitRuns inRun cur (c # cs) =
     (if isWhitespace c
      then (if inRun then splitRuns True cur cs else cur # splitRuns True [] cs)
      else splitRuns False (cur @ [c]) cs)"

definition splitWhitespace :: "string \<Rightarrow> string list" where
  "splitWhitespace t = splitRuns False [] t"

text \<open>\<open>text.split(' ')\<close>: the pieces between single occurrences of the separator.\<close>

fun splitAt :: "char \<Rightarrow> string \<Rightarrow> string \<Rightarrow> string list" where
  "splitAt sep cur [] = [cur]"
| "splitAt sep cur (c # cs) =
     (if c = sep then cur # splitAt sep [] cs else splitAt sep (cur @ [c]) cs)"

definition splitSpace :: "string \<Rightarrow> string list" where
  "splitSpace t = splitAt (CHR '' '') [] t"

definition trim :: "string \<Rightarrow> string" where
  "trim t = rev (dropWhile isWhitespace (rev (dropWhile isWhitespace t)))"

fun startsWith :: "string \<Rightarrow> string \<Rightarrow> bool" where
  "startsWith t [] = True"
| "startsWith [] (n # ns) = False"
| "startsWith (c # cs) (n # ns) = (c = n \<and> startsWith cs ns)"

text \<open>\<open>t.includes(needle)\<close>: \<open>needle\<close> occurs in \<open>t\<close> as a contiguous substring.\<close>

fun includesStr :: "string \<Rightarrow> string \<Rightarrow> bool" where
  "includesStr [] needle = (needle = [])"
| "includesStr (c # cs) needle = (startsWith (c # cs) needle \<or> includesStr cs needle)"



subsection \<open>Sentiment\<close>




subsection \<open>Session summary\<close>

record SentimentDistribution =
  positive :: nat
  neutral :: nat
  negative :: nat

record SessionSummary =
  totalParticipants :: nat
  totalDuration :: int
  totalWords :: nat
  averageParticipation :: rat
  sentimentDistribution :: SentimentDistribution

definition countSentiment :: "SentimentDistribution \<Rightarrow> ParticipantData \<Rightarrow> SentimentDistribution" where
  "countSentiment acc p =
     (case overall (sentiment p) of
        Positive \<Rightarrow> acc\<lparr>positive := positive acc + 1\<rparr>
      | Neutral \<Rightarrow> acc\<lparr>neutral := neutral acc + 1\<rparr>
      | Negative \<Rightarrow> acc\<lparr>negative := negative acc + 1\<rparr>)"

text \<open>
  \<open>reduce\<close> with an initial value is \<open>foldl\<close>. \<open>this.currentSession.endTime || Date.now()\<close>
  takes the clock when the end time is \<open>null\<close> or 0.
\<close>

definition getSessionSummary :: "int \<Rightarrow> AnalyticsService \<Rightarrow> SessionSummary" where
  "getSessionSummary now s =
     (let ps = getAllParticipants s;
          tWords = foldl (\<lambda>sum p. sum
                      + foldl (\<lambda>wordSum seg. wordSum + length (splitSpace (segText seg)))
                          0 (transcript p)) 0 ps;
          totalSpokenTime = foldl (\<lambda>sum p. sum + totalTimeSpoken p) 0 ps;
          totalSessionTime =
            (case currentSession s of
               None \<Rightarrow> 0
             | Some cs \<Rightarrow>
                 (case sessionEndTime cs of
                    None \<Rightarrow> now
                  | Some e \<Rightarrow> (if e \<noteq> 0 then e else now)) - sessionStartTime cs);
          sentimentCounts =
            foldl countSentiment \<lparr>positive = 0, neutral = 0, negative = 0\<rparr> ps
      in \<lparr>totalParticipants = length ps,
          totalDuration = totalSessionTime,
          totalWords = tWords,
          averageParticipation =
            (if totalSessionTime > 0
             then (rat_of_int totalSpokenTime / rat_of_int totalSessionTime) * 100
             else 0),
          sentimentDistribution = sentimentCounts\<rparr>)"


subsection \<open>Export\<close>

datatype ExportFormat = Json | Csv | Xlsx

record AnalyticsExportOptions =
  format :: ExportFormat
  includeTranscript :: bool
  includeSentiment :: bool
  includeWordTiming :: bool

text \<open>
  The object built by \<open>prepareExportData\<close>. A spread of \<open>false\<close> adds no key, so the
  optional keys (\<open>sentiment\<close>, \<open>transcript\<close>, \<open>words\<close>) are options. The session is
  exported together with the participant objects its array refers to.
\<close>

record ExportSegment =
  xSpeaker :: string
  xText :: string
  xStartTime :: int
  xEndTime :: int
  xConfidence :: rat
  xWords :: "WordSegment list option"

record ExportParticipant =
  xUserId :: string
  xUserName :: string
  xJoinTimestamp :: int
  xLeaveTimestamp :: "int option"
  xTotalTimeAttended :: int
  xTotalTimeSpoken :: int
  xSentiment :: "SentimentScore option"
  xTranscript :: "ExportSegment list option"

record ExportData =
  xSession :: "(MeetingSession \<times> ParticipantData list) option"
  xSummary :: SessionSummary
  xParticipants :: "ExportParticipant list"
  exportTimestamp :: int

text \<open>
  \<open>prepareExportData\<close> reads the clock twice: inside \<open>getSessionSummary\<close> (\<open>now\<close>) and for
  \<open>exportTimestamp\<close> (\<open>now'\<close>).
\<close>

definition prepareExportData ::
  "int \<Rightarrow> int \<Rightarrow> AnalyticsExportOptions \<Rightarrow> AnalyticsService \<Rightarrow> ExportData" where
  "prepareExportData now now' options s =
     \<lparr>xSession = map_option (\<lambda>cs. (cs, participantsOf s cs)) (currentSession s),
      xSummary = getSessionSummary now s,
      xParticipants =
        map (\<lambda>p.
               \<lparr>xUserId = userId p,
                xUserName = userName p,
                xJoinTimestamp = joinTimestamp p,
                xLeaveTimestamp = leaveTimestamp p,
                xTotalTimeAttended = totalTimeAttended p,
                xTotalTimeSpoken = totalTimeSpoken p,
                xSentiment = (if includeSentiment options then Some (sentiment p) else None),
                xTranscript =
                  (if includeTranscript options
                   then Some (map (\<lambda>seg.
                                 \<lparr>xSpeaker = speaker seg,
                                  xText = segText seg,
                                  xStartTime = startTime seg,
                                  xEndTime = endTime seg,
                                  xConfidence = confidence seg,
                                  xWords = (if includeWordTiming options then words seg
                                            else None)\<rparr>)
                              (transcript p))
                   else None)\<rparr>)
            (getAllParticipants s),
      exportTimestamp = now'\<rparr>"

text \<open>
  \<open>countWords\<close> of \<open>exportAsCSV\<close>: 0 for the empty text, else the pieces of
  \<open>split(/\s+/)\<close>, each trimmed, with the empty ones filtered out.
\<close>

definition countWords :: "string \<Rightarrow> nat" where
  "countWords t =
     (if t = [] then 0
      else length (filter (\<lambda>w. w \<noteq> []) (map trim (splitWhitespace t))))"

text \<open>
  A CSV cell holds the value before it is rendered: a string, the word count, a
  timestamp to be printed by \<open>toISOString\<close>, a millisecond amount to be printed as
  minutes by \<open>toFixed(2)\<close>, or a score to be printed by \<open>toFixed(3)\<close>. Rendering, quoting
  and joining the cells into text are not part of the model.
\<close>

datatype Cell =
    TextCell string
  | NumberCell nat
  | IsoTimeCell int
  | MinutesCell int
  | ScoreCell rat

definition overallLabel :: "Overall \<Rightarrow> string" where
  "overallLabel ov =
     (case ov of Positive \<Rightarrow> ''positive'' | Neutral \<Rightarrow> ''neutral'' | Negative \<Rightarrow> ''negative'')"

definition csvHeaders :: "AnalyticsExportOptions \<Rightarrow> string list" where
  "csvHeaders options =
     [''User ID'', ''User Name'', ''Join Time'', ''Leave Time'', ''Time Attended (min)'',
      ''Time Spoken (min)'', ''Words Spoken'']
     @ (if includeSentiment options then [''Sentiment'', ''Sentiment Score''] else [])"

definition wordsSpoken :: "ExportParticipant \<Rightarrow> nat" where
  "wordsSpoken p =
     (case xTranscript p of
        None \<Rightarrow> 0
      | Some segs \<Rightarrow> foldl (\<lambda>sum seg. sum + countWords (xText seg)) 0 segs)"

definition csvRow :: "AnalyticsExportOptions \<Rightarrow> ExportParticipant \<Rightarrow> Cell list" where
  "csvRow options p =
     [TextCell (xUserId p),
      TextCell (xUserName p),
      (if xJoinTimestamp p \<noteq> 0 then IsoTimeCell (xJoinTimestamp p) else TextCell []),
      (case xLeaveTimestamp p of
         None \<Rightarrow> TextCell ''Still in meeting''
       | Some t \<Rightarrow> (if t \<noteq> 0 then IsoTimeCell t else TextCell ''Still in meeting'')),
      MinutesCell (xTotalTimeAttended p),
      MinutesCell (xTotalTimeSpoken p),
      NumberCell (wordsSpoken p)]
     @ (if includeSentiment options
        then (case xSentiment p of
                None \<Rightarrow> [TextCell ''neutral'', TextCell ''0'']
              | Some sc \<Rightarrow> [TextCell (overallLabel (overall sc)), ScoreCell (score sc)])
        else [])"

definition exportAsCSV :: "ExportData \<Rightarrow> AnalyticsExportOptions \<Rightarrow> Cell list list" where
  "exportAsCSV d options =
     map TextCell (csvHeaders options) # map (csvRow options) (xParticipants d)"

text \<open>A thrown \<open>Error\<close> is the left summand, carrying the message.\<close>

datatype ExportError = Error string

datatype ExportOutput = CsvOutput "Cell list list" | JsonOutput ExportData

definition exportData ::
  "int \<Rightarrow> int \<Rightarrow> AnalyticsExportOptions \<Rightarrow> AnalyticsService \<Rightarrow> ExportError + ExportOutput" where
  "exportData now now' options s =
     (let d = prepareExportData now now' options s
      in (case format options of
            Csv \<Rightarrow> Inr (CsvOutput (exportAsCSV d options))
          | Xlsx \<Rightarrow> Inl (Error ''XLSX export not implemented. Use json or csv format.'')
          | Json \<Rightarrow> Inr (JsonOutput d)))"

text \<open>
  \<open>downloadExport\<close> hands a file to the browser: the effect is a new entry in the list
  of downloads. The function gets and returns the service state together with that
  list, and the error it throws, if any.
\<close>

record Download =
  downloadName :: string
  mimeType :: string
  payload :: ExportOutput

definition downloadExport ::
  "int \<Rightarrow> int \<Rightarrow> string \<Rightarrow> AnalyticsExportOptions \<Rightarrow> AnalyticsService \<times> Download list
     \<Rightarrow> (AnalyticsService \<times> Download list) \<times> ExportError option" where
  "downloadExport now now' filename options st =
     (case exportData now now' options (fst st) of
        Inl e \<Rightarrow> (st, Some e)
      | Inr d \<Rightarrow>
          (let mime = (if format options = Csv then ''text/csv'' else ''application/json'');
               extension = (if format options = Csv then ''.csv'' else ''.json'')
           in ((fst st,
                snd st @ [\<lparr>downloadName = filename @ extension, mimeType = mime, payload = d\<rparr>]),
               None)))"


section \<open>The page's transcript handler (src/app/page.tsx)\<close>





section \<open>Recognition client (src/lib/transcription.ts)\<close>

text \<open>
  The connection fields of \<open>TranscriptionService\<close>; \<open>ws\<close> says whether the field holds a
  socket. The handlers are functions from the state to the new state and the effects
  they cause: a socket being created or closed, a timer being set with its delay in
  milliseconds, a call of the \<open>onError\<close> callback. The message handler reads and writes
  none of these fields and is not part of the model.
\<close>

record TranscriptionService =
  ws :: bool
  isConnected :: bool
  reconnectAttempts :: nat
  maxReconnectAttempts :: nat

datatype SinkError = ConnectionError | CaughtError

datatype Effect =
    NewWebSocket
  | CloseWebSocket int
  | SetTimeout nat
  | OnError SinkError

definition newTranscriptionService :: TranscriptionService where
  "newTranscriptionService =
     \<lparr>ws = False, isConnected = False, reconnectAttempts = 0, maxReconnectAttempts = 3\<rparr>"

text \<open>
  \<open>connect\<close>: \<open>created\<close> is false when \<open>new WebSocket\<close> throws, which the \<open>catch\<close> reports;
  \<open>hasSink\<close> says whether the optional \<open>onError\<close> callback was given.
\<close>

definition connect :: "bool \<Rightarrow> bool \<Rightarrow> TranscriptionService \<Rightarrow> TranscriptionService \<times> Effect list" where
  "connect created hasSink st =
     (if created then (st\<lparr>ws := True\<rparr>, [NewWebSocket])
      else (st, if hasSink then [OnError CaughtError] else []))"

definition onopen :: "TranscriptionService \<Rightarrow> TranscriptionService \<times> Effect list" where
  "onopen st = (st\<lparr>isConnected := True, reconnectAttempts := 0\<rparr>, [])"

definition onerror :: "bool \<Rightarrow> TranscriptionService \<Rightarrow> TranscriptionService \<times> Effect list" where
  "onerror hasSink st =
     (st\<lparr>isConnected := False\<rparr>, if hasSink then [OnError ConnectionError] else [])"

definition onclose :: "int \<Rightarrow> TranscriptionService \<Rightarrow> TranscriptionService \<times> Effect list" where
  "onclose code st =
     (st\<lparr>isConnected := False\<rparr>,
      if code \<noteq> 1000 \<and> reconnectAttempts st < maxReconnectAttempts st
      then [SetTimeout (2000 * reconnectAttempts st)] else [])"

text \<open>The callback given to \<open>setTimeout\<close>.\<close>

definition reconnectCallback ::
  "bool \<Rightarrow> bool \<Rightarrow> TranscriptionService \<Rightarrow> TranscriptionService \<times> Effect list" where
  "reconnectCallback created hasSink st =
     connect created hasSink (st\<lparr>reconnectAttempts := reconnectAttempts st + 1\<rparr>)"

definition disconnect :: "TranscriptionService \<Rightarrow> TranscriptionService \<times> Effect list" where
  "disconnect st =
     (if ws st then (st\<lparr>ws := False, isConnected := False\<rparr>, [CloseWebSocket 1000])
      else (st, []))"

datatype Event =
    Opened
  | Errored
  | Closed int
  | TimerFired bool

definition handleEvent ::
  "bool \<Rightarrow> Event \<Rightarrow> TranscriptionService \<Rightarrow> TranscriptionService \<times> Effect list" where
  "handleEvent hasSink ev st =
     (case ev of
        Opened \<Rightarrow> onopen st
      | Errored \<Rightarrow> onerror hasSink st
      | Closed code \<Rightarrow> onclose code st
      | TimerFired created \<Rightarrow> reconnectCallback created hasSink st)"

text \<open>Handling a sequence of events, collecting the effects in order.\<close>

fun runEvents ::
  "bool \<Rightarrow> Event list \<Rightarrow> TranscriptionService \<Rightarrow> TranscriptionService \<times> Effect list" where
  "runEvents hasSink [] st = (st, [])"
| "runEvents hasSink (ev # evs) st =
     (let (st1, out1) = handleEvent hasSink ev st;
          (st2, out2) = runEvents hasSink evs st1
      in (st2, out1 @ out2))"

section \<open>Desktop shell: joining a meeting (electron main process)\<close>

record Window =
  loadedUrl :: string
  webContentsId :: nat

record WindowManager =
  mainWindow :: "Window option"
  meetingWindow :: "Window option"

definition validDomains :: "string list" where
  "validDomains =
     [''meet.google.com'', ''zoom.us'', ''teams.microsoft.com'', ''webex.com'',
      ''gotomeeting.com'']"

text \<open>
  \<open>isValidMeetingUrl\<close> starts with \<open>new URL(url)\<close>, the platform's parser. The model takes
  the parser's outcome: \<open>None\<close> when it throws, else the \<open>hostname\<close> of the parsed URL.
\<close>

definition isValidMeetingUrl :: "string option \<Rightarrow> bool" where
  "isValidMeetingUrl parsed =
     (case parsed of
        None \<Rightarrow> False
      | Some hostname \<Rightarrow> list_ex (\<lambda>domain. includesStr hostname domain) validDomains)"

record JoinResult =
  success :: bool
  resultId :: "nat option"

text \<open>
  \<open>createMeetingWindow\<close>: \<open>newId\<close> is \<open>None\<close> when constructing the window throws (the
  promise is rejected), else the web-contents id of the new window, with which the
  promise resolves once the window is ready to show.
\<close>

definition createMeetingWindow ::
  "string \<Rightarrow> nat option \<Rightarrow> WindowManager \<Rightarrow> WindowManager \<times> nat option" where
  "createMeetingWindow meetingUrl newId wm =
     (case newId of
        None \<Rightarrow> (wm, None)
      | Some i \<Rightarrow> (wm\<lparr>meetingWindow := Some \<lparr>loadedUrl = meetingUrl, webContentsId = i\<rparr>\<rparr>, Some i))"

text \<open>The \<open>join-meeting\<close> handler; every exception ends in \<open>{ success: false }\<close>.\<close>

definition joinMeeting ::
  "string option \<Rightarrow> string \<Rightarrow> nat option \<Rightarrow> WindowManager \<Rightarrow> WindowManager \<times> JoinResult" where
  "joinMeeting parsed meetingUrl newId wm =
     (if \<not> isValidMeetingUrl parsed then (wm, \<lparr>success = False, resultId = None\<rparr>)
      else
        (case createMeetingWindow meetingUrl newId wm of
           (wm', None) \<Rightarrow> (wm', \<lparr>success = False, resultId = None\<rparr>)
         | (wm', Some i) \<Rightarrow> (wm', \<lparr>success = True, resultId = Some i\<rparr>)))"


section \<open>Notions used in the properties\<close>


text \<open>The sum of the accumulated speaking times of a list of participants.\<close>

definition spokenSum :: "ParticipantData list \<Rightarrow> int" where
  "spokenSum ps = sum_list (map totalTimeSpoken ps)"

text \<open>A sequence of \<open>addTranscriptSegment\<close> calls, each with its clock value.\<close>

fun addAll :: "(int \<times> TranscriptSegment) list \<Rightarrow> AnalyticsService \<Rightarrow> AnalyticsService" where
  "addAll [] s = s"
| "addAll ((now, segment) # rest) s = addAll rest (addTranscriptSegment now segment s)"


text \<open>A segment without word timing, for concrete inputs.\<close>

definition mkSegment :: "int \<Rightarrow> string \<Rightarrow> int \<Rightarrow> int \<Rightarrow> TranscriptSegment" where
  "mkSegment i t a b =
     \<lparr>speaker = ''Speaker '' @ showInt i, speakerIndex = i, segText = t, startTime = a,
      endTime = b, confidence = 1, words = None\<rparr>"

text \<open>
  The reconciler as the specification words it: the search for the slot runs backward,
  from the newest segment to the oldest, so the last matching index is taken.
\<close>

fun findLastIndex_spec :: "('a \<Rightarrow> bool) \<Rightarrow> 'a list \<Rightarrow> nat option" where
  "findLastIndex_spec P [] = None"
| "findLastIndex_spec P (x # xs) =
     (case findLastIndex_spec P xs of
        Some i \<Rightarrow> Some (Suc i)
      | None \<Rightarrow> (if P x then Some 0 else None))"

definition reconcile_backward_spec ::
  "TranscriptSegment list \<Rightarrow> TranscriptSegment \<Rightarrow> TranscriptSegment list" where
  "reconcile_backward_spec prev segment =
     (case findLastIndex_spec (sameSlot segment) prev of
        Some i \<Rightarrow> prev[i := segment]
      | None \<Rightarrow> prev @ [segment])"

text \<open>
  The allow-list as the specification words it: the host is one of the listed domains
  or a subdomain of one, that is, it ends with a dot followed by the domain.
\<close>

definition endsWith :: "string \<Rightarrow> string \<Rightarrow> bool" where
  "endsWith t suffix = startsWith (rev t) (rev suffix)"

definition onAllowList_spec :: "string \<Rightarrow> bool" where
  "onAllowList_spec hostname =
     list_ex (\<lambda>domain. hostname = domain \<or> endsWith hostname (CHR ''.'' # domain)) validDomains"

text \<open>
  The word-counting policy as the specification words it: split on runs of white space,
  trim each token, drop the empty tokens, count the rest.
\<close>

definition wordCount_spec :: "string \<Rightarrow> nat" where
  "wordCount_spec t = length (filter (\<lambda>w. w \<noteq> []) (map trim (splitWhitespace t)))"

text \<open>
  What \<open>addTranscriptSegment\<close> does to the participant it resolves: the object created
  for an unseen identity, and the update of the segment list and the speaking time.
\<close>

definition createdParticipant :: "int \<Rightarrow> string \<Rightarrow> string \<Rightarrow> ParticipantData" where
  "createdParticipant now uid uname =
     \<lparr>userId = uid, userName = uname, joinTimestamp = now, leaveTimestamp = None,
      transcript = [], totalTimeAttended = 0, totalTimeSpoken = 0,
      sentiment = neutralSentiment\<rparr>"

definition withSegment :: "TranscriptSegment \<Rightarrow> ParticipantData \<Rightarrow> ParticipantData" where
  "withSegment segment p =
     p\<lparr>transcript := transcript p @ [segment],
       totalTimeSpoken := totalTimeSpoken p + (endTime segment - startTime segment)\<rparr>"


text \<open>An effect that is a call of the error callback.\<close>

definition isOnError :: "Effect \<Rightarrow> bool" where
  "isOnError ef = (case ef of OnError e \<Rightarrow> True | _ \<Rightarrow> False)"

declare showNat.simps [simp del]


section \<open>Properties of the reconciler\<close>

lemma findIndex_None_iff: "findIndex P xs = None \<longleftrightarrow> (\<forall>x \<in> set xs. \<not> P x)"
  by (induction xs) (auto split: option.splits)

lemma findIndex_SomeD:
  "findIndex P xs = Some i \<Longrightarrow> i < length xs \<and> P (xs ! i) \<and> (\<forall>j < i. \<not> P (xs ! j))"
proof (induction xs arbitrary: i)
  case Nil
  then show ?case by simp
next
  case (Cons x xs)
  show ?case
  proof (cases "P x")
    case True
    with Cons.prems show ?thesis by simp
  next
    case False
    with Cons.prems obtain k where k: "findIndex P xs = Some k" "i = Suc k"
      by (auto split: option.splits)
    from Cons.IH[OF k(1)] False k(2) show ?thesis
      by (auto simp: nth_Cons split: nat.splits)
  qed
qed

lemma findIndex_first:
  "i < length xs \<Longrightarrow> P (xs ! i) \<Longrightarrow> (\<forall>j < i. \<not> P (xs ! j)) \<Longrightarrow> findIndex P xs = Some i"
proof (induction xs arbitrary: i)
  case Nil
  then show ?case by simp
next
  case (Cons x xs)
  show ?case
  proof (cases i)
    case 0
    with Cons.prems show ?thesis by simp
  next
    case (Suc k)
    with Cons.prems have nx: "\<not> P x" by auto
    from Suc Cons.prems have "k < length xs" "P (xs ! k)" "\<forall>j < k. \<not> P (xs ! j)"
      by auto
    from Cons.IH[OF this] nx Suc show ?thesis by simp
  qed
qed

lemma findIndex_update_same:
  "findIndex P xs = Some i \<Longrightarrow> P y \<Longrightarrow> findIndex P (xs[i := y]) = Some i"
proof (induction xs arbitrary: i)
  case Nil
  then show ?case by simp
next
  case (Cons x xs)
  then show ?case
    by (cases "P x") (auto split: option.splits)
qed

lemma findIndex_snoc:
  "findIndex P xs = None \<Longrightarrow> P y \<Longrightarrow> findIndex P (xs @ [y]) = Some (length xs)"
  by (induction xs) (auto split: option.splits if_splits)

lemma sameSlot_refl: "sameSlot s s"
  by (simp add: sameSlot_def)

text \<open>
  Claim C4. Applying the same segment to the reconciler's transcript twice gives the
  transcript obtained after the first application: the second application overwrites
  the slot the first one wrote with equal content and appends nothing.
\<close>

theorem reconcile_idempotent:
  "reconcile (reconcile prev segment) segment = reconcile prev segment"
proof (cases "findIndex (sameSlot segment) prev")
  case None
  then have r: "reconcile prev segment = prev @ [segment]"
    by (simp add: reconcile_def)
  from None have "findIndex (sameSlot segment) (prev @ [segment]) = Some (length prev)"
    by (rule findIndex_snoc) (rule sameSlot_refl)
  then show ?thesis
    unfolding r by (simp add: reconcile_def)
next
  case (Some i)
  then have r: "reconcile prev segment = prev[i := segment]"
    by (simp add: reconcile_def)
  from Some have "findIndex (sameSlot segment) (prev[i := segment]) = Some i"
    by (rule findIndex_update_same) (rule sameSlot_refl)
  then show ?thesis
    unfolding r by (simp add: reconcile_def)
qed

text \<open>
  Claim C3, as the code has it. A new segment replaces, in place, the first segment in
  transcript order (the lowest index, not the last one) that has the same speaker index
  and whose start time differs from the new start time by strictly less than 1000 ms;
  when no segment qualifies, the new segment is appended. Starting from the empty
  transcript, two segments of one speaker whose start times are 500 ms apart leave one
  segment, the later one, and two whose start times are 1500 ms apart leave both.
\<close>

theorem reconcile_first_match:
  "((\<forall>s \<in> set prev. \<not> sameSlot segment s) \<longrightarrow> reconcile prev segment = prev @ [segment])
   \<and> (i < length prev \<and> sameSlot segment (prev ! i) \<and> (\<forall>j < i. \<not> sameSlot segment (prev ! j))
          \<longrightarrow> reconcile prev segment = prev[i := segment])
   \<and> (sameSlot segment s \<longleftrightarrow>
          speakerIndex s = speakerIndex segment \<and> \<bar>startTime s - startTime segment\<bar> < 1000)
   \<and> (speakerIndex e1 = speakerIndex e2 \<and> \<bar>startTime e2 - startTime e1\<bar> = 500
          \<longrightarrow> reconcile (reconcile [] e1) e2 = [e2])
   \<and> (speakerIndex e1 = speakerIndex e2 \<and> \<bar>startTime e2 - startTime e1\<bar> = 1500
          \<longrightarrow> reconcile (reconcile [] e1) e2 = [e1, e2])"
proof (intro conjI impI)
  assume "\<forall>s \<in> set prev. \<not> sameSlot segment s"
  then have "findIndex (sameSlot segment) prev = None"
    by (simp add: findIndex_None_iff)
  then show "reconcile prev segment = prev @ [segment]"
    by (simp add: reconcile_def)
next
  assume "i < length prev \<and> sameSlot segment (prev ! i) \<and> (\<forall>j < i. \<not> sameSlot segment (prev ! j))"
  then have "findIndex (sameSlot segment) prev = Some i"
    by (simp add: findIndex_first)
  then show "reconcile prev segment = prev[i := segment]"
    by (simp add: reconcile_def)
next
  show "sameSlot segment s \<longleftrightarrow>
          speakerIndex s = speakerIndex segment \<and> \<bar>startTime s - startTime segment\<bar> < 1000"
    by (simp add: sameSlot_def)
next
  assume "speakerIndex e1 = speakerIndex e2 \<and> \<bar>startTime e2 - startTime e1\<bar> = 500"
  then show "reconcile (reconcile [] e1) e2 = [e2]"
    by (simp add: reconcile_def sameSlot_def abs_minus_commute)
next
  assume "speakerIndex e1 = speakerIndex e2 \<and> \<bar>startTime e2 - startTime e1\<bar> = 1500"
  then show "reconcile (reconcile [] e1) e2 = [e1, e2]"
    by (simp add: reconcile_def sameSlot_def abs_minus_commute)
qed

lemma mkSegment_sel [simp]:
  "speakerIndex (mkSegment i t a b) = i" "startTime (mkSegment i t a b) = a"
  "endTime (mkSegment i t a b) = b" "segText (mkSegment i t a b) = t"
  by (simp_all add: mkSegment_def)

theorem reconcile_first_match_witness:
  "\<not> list_ex (sameSlot (mkSegment 1 ''a'' 0 400)) []
   \<and> reconcile [] (mkSegment 1 ''a'' 0 400) = [mkSegment 1 ''a'' 0 400]
   \<and> (0::nat) < length [mkSegment 1 ''a'' 0 400, mkSegment 1 ''b'' 1500 1900]
   \<and> sameSlot (mkSegment 1 ''c'' 800 1200)
        ([mkSegment 1 ''a'' 0 400, mkSegment 1 ''b'' 1500 1900] ! 0)
   \<and> reconcile [mkSegment 1 ''a'' 0 400, mkSegment 1 ''b'' 1500 1900] (mkSegment 1 ''c'' 800 1200)
       = [mkSegment 1 ''c'' 800 1200, mkSegment 1 ''b'' 1500 1900]
   \<and> \<bar>startTime (mkSegment 1 ''e'' 500 900) - startTime (mkSegment 1 ''d'' 0 400)\<bar> = 500
   \<and> reconcile (reconcile [] (mkSegment 1 ''d'' 0 400)) (mkSegment 1 ''e'' 500 900)
       = [mkSegment 1 ''e'' 500 900]
   \<and> \<bar>startTime (mkSegment 1 ''f'' 1500 1900) - startTime (mkSegment 1 ''d'' 0 400)\<bar> = 1500
   \<and> reconcile (reconcile [] (mkSegment 1 ''d'' 0 400)) (mkSegment 1 ''f'' 1500 1900)
       = [mkSegment 1 ''d'' 0 400, mkSegment 1 ''f'' 1500 1900]"
  using reconcile_first_match [of "[]" "mkSegment 1 ''a'' 0 400" 0 "mkSegment 1 ''a'' 0 400"
          "mkSegment 1 ''d'' 0 400" "mkSegment 1 ''e'' 500 900"]
        reconcile_first_match [of "[mkSegment 1 ''a'' 0 400, mkSegment 1 ''b'' 1500 1900]"
          "mkSegment 1 ''c'' 800 1200" 0 "mkSegment 1 ''a'' 0 400"
          "mkSegment 1 ''d'' 0 400" "mkSegment 1 ''f'' 1500 1900"]
  by (simp add: sameSlot_def)

text \<open>
  Claim C3 as worded fails on the direction of the search. With two segments of speaker 1
  starting at 0 ms and at 1500 ms, both within 1000 ms of a new segment starting at
  800 ms, the code overwrites the first one, while a backward search overwrites the
  second.
\<close>

theorem reconcile_backward_counterexample:
  "reconcile [mkSegment 1 ''a'' 0 400, mkSegment 1 ''b'' 1500 1900] (mkSegment 1 ''c'' 800 1200)
     = [mkSegment 1 ''c'' 800 1200, mkSegment 1 ''b'' 1500 1900]
   \<and> reconcile_backward_spec [mkSegment 1 ''a'' 0 400, mkSegment 1 ''b'' 1500 1900]
       (mkSegment 1 ''c'' 800 1200)
     = [mkSegment 1 ''a'' 0 400, mkSegment 1 ''c'' 800 1200]
   \<and> reconcile [mkSegment 1 ''a'' 0 400, mkSegment 1 ''b'' 1500 1900] (mkSegment 1 ''c'' 800 1200)
     \<noteq> reconcile_backward_spec [mkSegment 1 ''a'' 0 400, mkSegment 1 ''b'' 1500 1900]
       (mkSegment 1 ''c'' 800 1200)"
  by (simp add: reconcile_def reconcile_backward_spec_def sameSlot_def mkSegment_def)

section \<open>Properties of the participants map\<close>

lemma map_of_mapSet: "map_of (mapSet k v m) = (map_of m)(k \<mapsto> v)"
  by (induction m) (auto simp: fun_eq_iff)

lemma mapGet_mapSet: "mapGet (mapSet k v m) k' = (if k' = k then Some v else mapGet m k')"
  by (simp add: mapGet_def map_of_mapSet)

lemma mapSet_mapSet: "mapSet k v (mapSet k w m) = mapSet k v m"
  by (induction m) auto

lemma mapHas_iff: "mapHas m k \<longleftrightarrow> map_of m k \<noteq> None"
  by (simp add: mapHas_def split: option.splits)



lemma sum_mapSet:
  fixes f :: "'v \<Rightarrow> int"
  shows "sum_list (map f (mapValues (mapSet k v m)))
           = sum_list (map f (mapValues m)) + f v
               - (case map_of m k of None \<Rightarrow> 0 | Some old \<Rightarrow> f old)"
  by (induction m) (auto simp: mapValues_def)


section \<open>Properties of the aggregator\<close>

text \<open>\<open>addTranscriptSegment\<close>, field by field.\<close>

lemma participants_addTranscriptSegment:
  "participants (addTranscriptSegment now segment s) =
     mapSet (resolveUserId s (speakerIndex segment))
       (withSegment segment
          (case mapGet (participants s) (resolveUserId s (speakerIndex segment)) of
             None \<Rightarrow> createdParticipant now (resolveUserId s (speakerIndex segment)) (speaker segment)
           | Some p \<Rightarrow> p))
       (participants s)"
  by (auto simp: addTranscriptSegment_def addParticipant_def Let_def mapHas_iff mapGet_def
      map_of_mapSet mapSet_mapSet withSegment_def createdParticipant_def
      split: option.splits)

lemma currentSession_addTranscriptSegment:
  "currentSession (addTranscriptSegment now segment s) =
     map_option (\<lambda>cs. cs\<lparr>totalTranscript := totalTranscript cs @ [segment]\<rparr>) (currentSession s)"
  by (auto simp: addTranscriptSegment_def addParticipant_def Let_def mapHas_iff mapGet_def
      map_of_mapSet split: option.splits)

lemma spokenSum_addTranscriptSegment:
  "spokenSum (getAllParticipants (addTranscriptSegment now segment s))
     = spokenSum (getAllParticipants s) + duration segment"
  by (simp add: spokenSum_def getAllParticipants_def participants_addTranscriptSegment
      sum_mapSet mapGet_def withSegment_def createdParticipant_def duration_def
      split: option.splits)




lemma currentSession_addAll:
  "currentSession (addAll tsegs s) =
     map_option (\<lambda>cs. cs\<lparr>totalTranscript := totalTranscript cs @ map snd tsegs\<rparr>) (currentSession s)"
proof (induction tsegs s rule: addAll.induct)
  case (1 s)
  then show ?case by (cases "currentSession s") simp_all
next
  case (2 now segment rest s)
  then show ?case
    by (cases "currentSession s") (simp_all add: currentSession_addTranscriptSegment)
qed



text \<open>
  Claim C10. A call of \<open>addTranscriptSegment\<close> made while no session is active still
  changes the participant the segment resolves to: the segment is appended to that
  participant's transcript and its duration is added to the speaking time, the
  participant being created first when the identity is unseen. No other participant
  changes, the participants' total speaking time grows by the duration, and there is
  still no session. A session started afterwards begins with an empty transcript and
  holds exactly the segments added after its start.
\<close>

theorem addTranscriptSegment_without_session:
  assumes "currentSession s = None"
  shows "currentSession (addTranscriptSegment now segment s) = None
    \<and> mapGet (participants (addTranscriptSegment now segment s))
          (resolveUserId s (speakerIndex segment))
        = Some (withSegment segment
                  (case mapGet (participants s) (resolveUserId s (speakerIndex segment)) of
                     None \<Rightarrow> createdParticipant now (resolveUserId s (speakerIndex segment))
                               (speaker segment)
                   | Some p \<Rightarrow> p))
    \<and> (k \<noteq> resolveUserId s (speakerIndex segment) \<longrightarrow>
          mapGet (participants (addTranscriptSegment now segment s)) k
            = mapGet (participants s) k)
    \<and> spokenSum (getAllParticipants (addTranscriptSegment now segment s))
        = spokenSum (getAllParticipants s) + (endTime segment - startTime segment)
    \<and> map_option totalTranscript
          (currentSession
             (addAll tsegs (startSession now' sid u (addTranscriptSegment now segment s))))
        = Some (map snd tsegs)"
proof (intro conjI)
  show "currentSession (addTranscriptSegment now segment s) = None"
    using assms by (simp add: currentSession_addTranscriptSegment)
next
  show "mapGet (participants (addTranscriptSegment now segment s))
          (resolveUserId s (speakerIndex segment))
        = Some (withSegment segment
                  (case mapGet (participants s) (resolveUserId s (speakerIndex segment)) of
                     None \<Rightarrow> createdParticipant now (resolveUserId s (speakerIndex segment))
                               (speaker segment)
                   | Some p \<Rightarrow> p))"
    by (simp add: participants_addTranscriptSegment mapGet_mapSet)
next
  show "k \<noteq> resolveUserId s (speakerIndex segment) \<longrightarrow>
          mapGet (participants (addTranscriptSegment now segment s)) k
            = mapGet (participants s) k"
    by (simp add: participants_addTranscriptSegment mapGet_mapSet)
next
  show "spokenSum (getAllParticipants (addTranscriptSegment now segment s))
        = spokenSum (getAllParticipants s) + (endTime segment - startTime segment)"
    by (simp add: spokenSum_addTranscriptSegment duration_def)
next
  show "map_option totalTranscript
          (currentSession
             (addAll tsegs (startSession now' sid u (addTranscriptSegment now segment s))))
        = Some (map snd tsegs)"
    by (simp add: currentSession_addAll startSession_def)
qed

lemma unknownId_2: "unknownId 2 = ''unknown_2''"
  by (simp add: unknownId_def showInt_def showNat.simps)

theorem addTranscriptSegment_without_session_witness:
  "currentSession newAnalyticsService = None
   \<and> currentSession (addTranscriptSegment 7 (mkSegment 2 ''hi'' 100 600) newAnalyticsService) = None
   \<and> mapGet (participants (addTranscriptSegment 7 (mkSegment 2 ''hi'' 100 600) newAnalyticsService))
        ''unknown_2''
      = Some \<lparr>userId = ''unknown_2'', userName = ''Speaker 2'', joinTimestamp = 7,
               leaveTimestamp = None, transcript = [mkSegment 2 ''hi'' 100 600],
               totalTimeAttended = 0, totalTimeSpoken = 500, sentiment = neutralSentiment\<rparr>
   \<and> mapGet (participants (addTranscriptSegment 7 (mkSegment 2 ''hi'' 100 600) newAnalyticsService))
        ''unknown_3'' = None
   \<and> spokenSum (getAllParticipants
         (addTranscriptSegment 7 (mkSegment 2 ''hi'' 100 600) newAnalyticsService)) = 500
   \<and> map_option totalTranscript
        (currentSession
           (addAll [] (startSession 9 ''s'' ''u''
              (addTranscriptSegment 7 (mkSegment 2 ''hi'' 100 600) newAnalyticsService))))
      = Some []"
proof -
  have n: "currentSession newAnalyticsService = None"
    by (simp add: newAnalyticsService_def)
  have r: "resolveUserId newAnalyticsService 2 = ''unknown_2''"
    by (simp add: resolveUserId_def newAnalyticsService_def unknownId_2)
  have m: "mapGet (participants newAnalyticsService) k = None" for k
    by (simp add: mapGet_def newAnalyticsService_def)
  have sp: "speaker (mkSegment 2 ''hi'' 100 600) = ''Speaker 2''"
    by (simp add: mkSegment_def showInt_def showNat.simps)
  have z: "spokenSum (getAllParticipants newAnalyticsService) = 0"
    by (simp add: spokenSum_def getAllParticipants_def mapValues_def newAnalyticsService_def)
  from addTranscriptSegment_without_session [OF n, where now = 7
      and segment = "mkSegment 2 ''hi'' 100 600" and k = "''unknown_3''" and tsegs = "[]"
      and now' = 9 and sid = "''s''" and u = "''u''"]
  show ?thesis
    by (simp add: n r m sp z withSegment_def createdParticipant_def)
qed

subsection \<open>Conservation of speaking time\<close>

lemma totalTimeSpoken_closeParticipant [simp]:
  "totalTimeSpoken (closeParticipant t p) = totalTimeSpoken p"
  by (simp add: closeParticipant_def)

lemma map_fst_close:
  "map fst (map (\<lambda>(k, p). (k, closeParticipant t p)) m) = map fst m"
  by (induction m) auto








subsection \<open>Ending a session twice\<close>

lemma closeParticipant_twice:
  "firstNow \<noteq> 0 \<Longrightarrow> closeParticipant secondNow (closeParticipant firstNow p) = closeParticipant firstNow p"
  by (simp add: closeParticipant_def truthyTime_def)

lemma close_map_twice:
  "firstNow \<noteq> 0 \<Longrightarrow>
   map (\<lambda>(k, p). (k, closeParticipant secondNow p)) (map (\<lambda>(k, p). (k, closeParticipant firstNow p)) m)
     = map (\<lambda>(k, p). (k, closeParticipant firstNow p)) m"
  by (induction m) (auto simp: closeParticipant_twice)

text \<open>
  Claim C8, as the code has it. A second \<open>endSession\<close> right after the first leaves the
  participants (their \<open>leaveTimestamp\<close>, \<open>totalTimeAttended\<close> and everything else), the
  speaker mapping and the rest of the session as the first call left them, and returns
  the session again; but it overwrites the session's \<open>endTime\<close> with the clock value of
  the second call. The first call's clock value is not 0 (a stamp of 0 counts as
  missing and would be redone).
\<close>

theorem endSession_twice:
  assumes "firstNow \<noteq> 0"
  shows "(case endSession firstNow s of
            (s1, r1) \<Rightarrow>
              (case endSession secondNow s1 of
                 (s2, r2) \<Rightarrow>
                   participants s2 = participants s1
                   \<and> speakerMapping s2 = speakerMapping s1
                   \<and> currentSession s2
                       = map_option (\<lambda>cs. cs\<lparr>sessionEndTime := Some secondNow\<rparr>) (currentSession s1)
                   \<and> r1 = currentSession s1
                   \<and> r2 = currentSession s2))"
proof (cases "currentSession s")
  case None
  then show ?thesis by (simp add: endSession_def)
next
  case (Some cs)
  then show ?thesis
    using assms
    by (simp add: endSession_def Let_def close_map_twice map_fst_close del: map_map)
qed

theorem endSession_twice_witness:
  "(100::int) \<noteq> 0
   \<and> (case endSession 100 (addTranscriptSegment 7 (mkSegment 2 ''hi'' 100 600)
                              (startSession 5 ''s'' ''u'' newAnalyticsService)) of
         (s1, r1) \<Rightarrow>
           (case endSession 200 s1 of
              (s2, r2) \<Rightarrow>
                 map (\<lambda>p. (leaveTimestamp p, totalTimeAttended p)) (getAllParticipants s1)
                   = [(Some 100, 93)]
               \<and> map (\<lambda>p. (leaveTimestamp p, totalTimeAttended p)) (getAllParticipants s2)
                   = [(Some 100, 93)]
               \<and> participants s2 = participants s1
               \<and> map_option sessionEndTime r1 = Some (Some 100)
               \<and> map_option sessionEndTime r2 = Some (Some 200)))"
  using endSession_twice [where firstNow = 100 and secondNow = 200
      and s = "addTranscriptSegment 7 (mkSegment 2 ''hi'' 100 600)
         (startSession 5 ''s'' ''u'' newAnalyticsService)"]
  by (simp add: endSession_def startSession_def newAnalyticsService_def Let_def
      participants_addTranscriptSegment currentSession_addTranscriptSegment mapGet_def
      withSegment_def createdParticipant_def closeParticipant_def truthyTime_def
      getAllParticipants_def mapValues_def split: prod.splits)

text \<open>
  Claim C8 as worded fails on the end time: ended at 100 and again at 200, the session's
  \<open>endTime\<close> is 200, not 100, so the second call changes the state.
\<close>

theorem endSession_twice_counterexample:
  "map_option sessionEndTime
     (snd (endSession 100 (startSession 5 ''s'' ''u'' newAnalyticsService))) = Some (Some 100)
   \<and> map_option sessionEndTime
       (snd (endSession 200
          (fst (endSession 100 (startSession 5 ''s'' ''u'' newAnalyticsService)))))
     = Some (Some 200)
   \<and> fst (endSession 200 (fst (endSession 100 (startSession 5 ''s'' ''u'' newAnalyticsService))))
     \<noteq> fst (endSession 100 (startSession 5 ''s'' ''u'' newAnalyticsService))"
  by (simp add: endSession_def startSession_def newAnalyticsService_def Let_def)

subsection \<open>Speaking time under revised segments\<close>











section \<open>Properties of the export\<close>

text \<open>
  Claim C6. An export request with the format \<open>xlsx\<close> fails with the error
  "XLSX export not implemented. Use json or csv format.", which names the format and
  says that it is not implemented. \<open>exportData\<close> returns no payload, \<open>downloadExport\<close>
  hands no file to the browser, and the service state is unchanged.
\<close>

theorem xlsx_export_fails:
  assumes "format options = Xlsx"
  shows "exportData now now' options s
           = Inl (Error ''XLSX export not implemented. Use json or csv format.'')
    \<and> downloadExport now now' filename options (s, downloads)
        = ((s, downloads), Some (Error ''XLSX export not implemented. Use json or csv format.''))
    \<and> includesStr ''XLSX export not implemented. Use json or csv format.'' ''XLSX''
    \<and> includesStr ''XLSX export not implemented. Use json or csv format.'' ''not implemented''"
  using assms by (simp add: exportData_def downloadExport_def Let_def)

theorem xlsx_export_fails_witness:
  "format \<lparr>format = Xlsx, includeTranscript = True, includeSentiment = True,
           includeWordTiming = False\<rparr> = Xlsx
   \<and> exportData 50 60
        \<lparr>format = Xlsx, includeTranscript = True, includeSentiment = True,
         includeWordTiming = False\<rparr>
        (addTranscriptSegment 7 (mkSegment 2 ''hi'' 100 600)
           (startSession 5 ''s'' ''u'' newAnalyticsService))
      = Inl (Error ''XLSX export not implemented. Use json or csv format.'')
   \<and> downloadExport 50 60 ''meeting-s-2024-01-01''
        \<lparr>format = Xlsx, includeTranscript = True, includeSentiment = True,
         includeWordTiming = False\<rparr>
        (addTranscriptSegment 7 (mkSegment 2 ''hi'' 100 600)
           (startSession 5 ''s'' ''u'' newAnalyticsService), [])
      = ((addTranscriptSegment 7 (mkSegment 2 ''hi'' 100 600)
            (startSession 5 ''s'' ''u'' newAnalyticsService), []),
         Some (Error ''XLSX export not implemented. Use json or csv format.''))"
  using xlsx_export_fails [where options = "\<lparr>format = Xlsx, includeTranscript = True,
      includeSentiment = True, includeWordTiming = False\<rparr>" and now = 50 and now' = 60
      and filename = "''meeting-s-2024-01-01''" and downloads = "[]"
      and s = "addTranscriptSegment 7 (mkSegment 2 ''hi'' 100 600)
           (startSession 5 ''s'' ''u'' newAnalyticsService)"]
  by simp

lemma countWords_policy: "countWords t = wordCount_spec t"
  by (cases t) (simp_all add: countWords_def wordCount_spec_def splitWhitespace_def trim_def)

text \<open>
  Claim C7 fails on the session summary. For one segment with the text "hello  world"
  (two spaces), the tabular export counts 2 words, as the word-counting policy does,
  while \<open>getSessionSummary\<close> reports 3: it counts the pieces of \<open>split(' ')\<close>, an empty
  piece between the two spaces among them.
\<close>

theorem summary_word_count_differs:
  "totalWords
     (getSessionSummary 50
        (addTranscriptSegment 7 (mkSegment 0 ''hello  world'' 0 1000)
           (startSession 5 ''s'' ''u'' newAnalyticsService))) = 3
   \<and> map wordsSpoken
       (xParticipants
          (prepareExportData 50 60
             \<lparr>format = Csv, includeTranscript = True, includeSentiment = True,
              includeWordTiming = False\<rparr>
             (addTranscriptSegment 7 (mkSegment 0 ''hello  world'' 0 1000)
                (startSession 5 ''s'' ''u'' newAnalyticsService)))) = [2]
   \<and> wordCount_spec ''hello  world'' = 2"
  by code_simp

section \<open>Properties of the recognition client\<close>

lemma runEvents_Cons:
  "runEvents hasSink (ev # evs) st =
     (fst (runEvents hasSink evs (fst (handleEvent hasSink ev st))),
      snd (handleEvent hasSink ev st) @ snd (runEvents hasSink evs (fst (handleEvent hasSink ev st))))"
  by (simp add: split_def Let_def)

lemma handleEvent_no_error:
  "ev \<noteq> Errored \<Longrightarrow> ev \<noteq> TimerFired False
     \<Longrightarrow> \<not> list_ex isOnError (snd (handleEvent hasSink ev st))"
  by (cases ev)
     (auto simp: handleEvent_def onopen_def onclose_def reconnectCallback_def connect_def
        isOnError_def)

lemma runEvents_no_error:
  "Errored \<notin> set evs \<Longrightarrow> TimerFired False \<notin> set evs
     \<Longrightarrow> \<not> list_ex isOnError (snd (runEvents hasSink evs st))"
proof (induction evs arbitrary: st)
  case Nil
  then show ?case by simp
next
  case (Cons ev evs)
  from Cons.prems have "ev \<noteq> Errored" "ev \<noteq> TimerFired False"
    by auto
  then have "\<not> list_ex isOnError (snd (handleEvent hasSink ev st))"
    by (rule handleEvent_no_error)
  moreover from Cons.prems have "Errored \<notin> set evs" "TimerFired False \<notin> set evs"
    by auto
  then have "\<not> list_ex isOnError (snd (runEvents hasSink evs (fst (handleEvent hasSink ev st))))"
    by (rule Cons.IH)
  ultimately show ?case
    unfolding runEvents_Cons by simp
qed

text \<open>
  Claim C5, as the code has it. On a close with a code other than 1000 while
  \<open>reconnectAttempts\<close> is below \<open>maxReconnectAttempts\<close> (3), the close handler sets one
  timer with a delay of 2000 ms times \<open>reconnectAttempts\<close>; the counter is incremented
  when the timer fires and the client connects again, and it is reset to 0 when a
  socket opens. So after an open, successive abnormal closes reconnect after 0 ms,
  2000 ms and 4000 ms, and the fourth finds the counter at 3. On a close with code 1000,
  or with the counter at the maximum, the close handler causes no effect: no timer and
  no call of the error callback. In a run of events the error callback is called only
  by the socket's error handler or when creating a socket throws.
\<close>

theorem reconnect_policy:
  "(code \<noteq> 1000 \<and> reconnectAttempts st < maxReconnectAttempts st
      \<longrightarrow> snd (onclose code st) = [SetTimeout (2000 * reconnectAttempts st)])
   \<and> (code = 1000 \<or> maxReconnectAttempts st \<le> reconnectAttempts st
      \<longrightarrow> snd (onclose code st) = [])
   \<and> reconnectAttempts (fst (onclose code st)) = reconnectAttempts st
   \<and> reconnectAttempts (fst (reconnectCallback created hasSink st)) = reconnectAttempts st + 1
   \<and> reconnectAttempts (fst (onopen st)) = 0
   \<and> (c1 \<noteq> 1000 \<and> c2 \<noteq> 1000 \<and> c3 \<noteq> 1000 \<and> c4 \<noteq> 1000
      \<longrightarrow> runEvents hasSink
            [Opened, Closed c1, TimerFired True, Closed c2, TimerFired True,
             Closed c3, TimerFired True, Closed c4]
            (fst (connect True hasSink newTranscriptionService))
          = (\<lparr>ws = True, isConnected = False, reconnectAttempts = 3, maxReconnectAttempts = 3\<rparr>,
             [SetTimeout 0, NewWebSocket, SetTimeout 2000, NewWebSocket,
              SetTimeout 4000, NewWebSocket]))
   \<and> (Errored \<notin> set evs \<and> TimerFired False \<notin> set evs
      \<longrightarrow> \<not> list_ex isOnError (snd (runEvents hasSink evs st)))"
proof (intro conjI impI)
  assume "Errored \<notin> set evs \<and> TimerFired False \<notin> set evs"
  then show "\<not> list_ex isOnError (snd (runEvents hasSink evs st))"
    by (simp add: runEvents_no_error)
qed (auto simp: onclose_def onopen_def reconnectCallback_def connect_def handleEvent_def
      newTranscriptionService_def)

theorem reconnect_policy_witness:
  "(1006::int) \<noteq> 1000
   \<and> reconnectAttempts (newTranscriptionService\<lparr>reconnectAttempts := 1\<rparr>)
       < maxReconnectAttempts (newTranscriptionService\<lparr>reconnectAttempts := 1\<rparr>)
   \<and> snd (onclose 1006 (newTranscriptionService\<lparr>reconnectAttempts := 1\<rparr>)) = [SetTimeout 2000]
   \<and> maxReconnectAttempts (newTranscriptionService\<lparr>reconnectAttempts := 3\<rparr>)
       \<le> reconnectAttempts (newTranscriptionService\<lparr>reconnectAttempts := 3\<rparr>)
   \<and> snd (onclose 1006 (newTranscriptionService\<lparr>reconnectAttempts := 3\<rparr>)) = []
   \<and> snd (runEvents True
            [Opened, Closed 1006, TimerFired True, Closed 1006, TimerFired True,
             Closed 1006, TimerFired True, Closed 1006]
            (fst (connect True True newTranscriptionService)))
       = [SetTimeout 0, NewWebSocket, SetTimeout 2000, NewWebSocket,
          SetTimeout 4000, NewWebSocket]
   \<and> Errored \<notin> set [Closed 1006, Closed 1006]
   \<and> TimerFired False \<notin> set [Closed 1006, Closed 1006]
   \<and> \<not> list_ex isOnError
         (snd (runEvents True [Closed 1006, Closed 1006]
            (newTranscriptionService\<lparr>reconnectAttempts := 3\<rparr>)))"
  using reconnect_policy [where code = 1006
      and st = "newTranscriptionService\<lparr>reconnectAttempts := 1\<rparr>"
      and ?c1.0 = 1006 and ?c2.0 = 1006 and ?c3.0 = 1006 and ?c4.0 = 1006 and hasSink = True
      and evs = "[]"]
    reconnect_policy [where code = 1006
      and st = "newTranscriptionService\<lparr>reconnectAttempts := 3\<rparr>"
      and evs = "[Closed 1006, Closed 1006]" and hasSink = True]
  by (simp add: newTranscriptionService_def)

text \<open>
  Claim C5 as worded fails on the first delay and on the terminal error. The first
  abnormal close after an open sets the timer to 0 ms, not 2000 ms; and an abnormal close
  with the counter at 3 changes nothing and causes no effect, so nothing reaches the
  error callback.
\<close>

theorem reconnect_counterexample:
  "snd (runEvents True [Opened, Closed 1006] (fst (connect True True newTranscriptionService)))
     = [SetTimeout 0]
   \<and> runEvents True [Closed 1006]
       \<lparr>ws = True, isConnected = False, reconnectAttempts = 3, maxReconnectAttempts = 3\<rparr>
     = (\<lparr>ws = True, isConnected = False, reconnectAttempts = 3, maxReconnectAttempts = 3\<rparr>, [])"
  by (simp add: onclose_def onopen_def connect_def handleEvent_def newTranscriptionService_def)

section \<open>Properties of the join handler\<close>

lemma invalid_url_no_window:
  "\<not> isValidMeetingUrl parsed
     \<Longrightarrow> joinMeeting parsed meetingUrl newId wm = (wm, \<lparr>success = False, resultId = None\<rparr>)"
  by (simp add: joinMeeting_def)

text \<open>
  Claim C9 fails on a host that merely contains a listed domain. The host
  \<open>zoom.us.evil.example\<close> is neither a listed domain nor a subdomain of one, yet
  \<open>isValidMeetingUrl\<close> accepts it, because it tests \<open>hostname.includes(domain)\<close>, and the
  join handler creates the meeting window and reports success.
\<close>

theorem substring_host_accepted:
  "\<not> onAllowList_spec ''zoom.us.evil.example''
   \<and> isValidMeetingUrl (Some ''zoom.us.evil.example'')
   \<and> joinMeeting (Some ''zoom.us.evil.example'') ''https://zoom.us.evil.example/j/1'' (Some 7)
        \<lparr>mainWindow = Some \<lparr>loadedUrl = ''http://localhost:3000'', webContentsId = 1\<rparr>,
         meetingWindow = None\<rparr>
      = (\<lparr>mainWindow = Some \<lparr>loadedUrl = ''http://localhost:3000'', webContentsId = 1\<rparr>,
          meetingWindow =
            Some \<lparr>loadedUrl = ''https://zoom.us.evil.example/j/1'', webContentsId = 7\<rparr>\<rparr>,
         \<lparr>success = True, resultId = Some 7\<rparr>)"
  by code_simp

end
